theory Spec2Isabelle
  imports Complex_Main "HOL-Library.AList"
begin

section \<open>Values and records of the backend\<close>

text \<open>
  The backend (\<^verbatim>\<open>Backend/server.js\<close>, \<^verbatim>\<open>Backend/middleware/authMiddleware.js\<close>) is an
  Express application with a socket.io signaling server attached. The model follows
  the JavaScript as written. A \<^verbatim>\<open>Date\<close> is its time value, the number of milliseconds
  since the epoch, an \<open>int\<close>. JavaScript values that travel through the handlers
  untouched (request payloads, signaling payloads) are values of \<open>jsval\<close>; an object is
  the list of its own enumerable properties in property order. The numbers the handlers
  compute with (time values, whole seconds) are integers.
\<close>

datatype jsval =
    JUndefined
  | JNull
  | JBool bool
  | JNum int
  | JStr string
  | JDate int
  | JArr "jsval list"
  | JObj "(string \<times> jsval) list"

text \<open>\<^verbatim>\<open>userVisitTimes[userId] = { visitTime: timestamp }\<close>\<close>

record visit_entry =
  visitTime :: int

text \<open>
  The parameter array of
  \<^verbatim>\<open>INSERT INTO activities (user_id, event_type, details) VALUES (?, ?, ?)\<close>.
  The third parameter is handed to \<^verbatim>\<open>JSON.stringify\<close>; the model keeps the object that
  is serialised.
\<close>

record query =
  user_id :: nat
  event_type :: jsval
  details :: "(string \<times> jsval) list"

text \<open>\<^verbatim>\<open>res.status(n).send(text)\<close> and \<^verbatim>\<open>res.sendStatus(n)\<close>\<close>

record response =
  status :: nat
  body :: string

text \<open>
  The two module-level objects of \<^verbatim>\<open>server.js\<close>, keyed by \<^verbatim>\<open>req.user.id\<close>. The ids are
  the numeric primary keys that \<^verbatim>\<open>login\<close> signs into the token
  (\<^verbatim>\<open>jwt.sign({ id: user.id }, ...)\<close>).
\<close>

record server_state =
  userVisitTimes :: "nat \<rightharpoonup> visit_entry"
  pageVisitLogged :: "nat \<rightharpoonup> bool"

definition initial_state :: server_state where
  "initial_state = \<lparr>userVisitTimes = Map.empty, pageVisitLogged = Map.empty\<rparr>"

text \<open>
  What the synchronous part of a handler leaves behind: either the response is already
  sent, or \<^verbatim>\<open>connection.query\<close> has been called and the response will be sent from its
  callback.
\<close>

datatype outcome = Sent response | Issued query

section \<open>Session tracker\<close>

text \<open>JavaScript truthiness of \<^verbatim>\<open>pageVisitLogged[userId]\<close>: a missing property is falsy.\<close>

definition truthy :: "bool option \<Rightarrow> bool" where
  "truthy v = (case v of None \<Rightarrow> False | Some b \<Rightarrow> b)"

text \<open>\<^verbatim>\<open>app.post('/api/monitoring/page-visit', ...)\<close>, up to the call of the query.\<close>

definition page_visit :: "int \<Rightarrow> nat \<Rightarrow> server_state \<Rightarrow> server_state \<times> outcome" where
  "page_visit timestamp userId s =
     (let event = JStr ''Page Visit'';
          dets = [(''action'', JStr ''Page Visit''), (''timestamp'', JDate timestamp)]
      in if \<not> truthy (pageVisitLogged s userId)
         then (s\<lparr>pageVisitLogged := (pageVisitLogged s)(userId \<mapsto> True),
                  userVisitTimes := (userVisitTimes s)(userId \<mapsto> \<lparr>visitTime = timestamp\<rparr>)\<rparr>,
               Issued \<lparr>user_id = userId, event_type = event, details = dets\<rparr>)
         else (s, Sent \<lparr>status = 200, body = ''Page visit already recorded''\<rparr>))"

text \<open>The callback of the page-visit query; \<open>err\<close> is the error the driver reports.\<close>

definition page_visit_callback :: "string option \<Rightarrow> response" where
  "page_visit_callback err =
     (case err of
        Some _ \<Rightarrow> \<lparr>status = 500, body = ''Internal Server Error''\<rparr>
      | None \<Rightarrow> \<lparr>status = 200, body = ''Page visit recorded''\<rparr>)"

text \<open>
  \<^verbatim>\<open>Math.floor((timestamp - new Date(visitTime)) / 1000)\<close> when a visit time is stored,
  \<^verbatim>\<open>0\<close> otherwise. A stored \<^verbatim>\<open>Date\<close> object is always truthy. \<open>div\<close> on \<open>int\<close> rounds
  towards minus infinity, as \<^verbatim>\<open>Math.floor\<close> does.
\<close>

definition timeSpent_of :: "int \<Rightarrow> visit_entry option \<Rightarrow> int" where
  "timeSpent_of timestamp entry =
     (case entry of
        None \<Rightarrow> 0
      | Some e \<Rightarrow> (timestamp - visitTime e) div 1000)"

text \<open>\<^verbatim>\<open>app.post('/api/monitoring/page-leave', ...)\<close>, up to the call of the query.\<close>

definition page_leave :: "int \<Rightarrow> nat \<Rightarrow> server_state \<Rightarrow> server_state \<times> outcome" where
  "page_leave timestamp userId s =
     (let event = JStr ''Page Leave'';
          timeSpent = timeSpent_of timestamp (userVisitTimes s userId);
          s' = s\<lparr>userVisitTimes := (userVisitTimes s)(userId := None),
                 pageVisitLogged := (pageVisitLogged s)(userId := None)\<rparr>;
          dets = [(''action'', JStr ''Page Leave''), (''timestamp'', JDate timestamp),
                  (''timeSpent'', JNum timeSpent)]
      in (s', Issued \<lparr>user_id = userId, event_type = event, details = dets\<rparr>))"

definition page_leave_callback :: "string option \<Rightarrow> response" where
  "page_leave_callback err =
     (case err of
        Some _ \<Rightarrow> \<lparr>status = 500, body = ''Internal Server Error''\<rparr>
      | None \<Rightarrow> \<lparr>status = 200, body = ''Page leave recorded''\<rparr>)"

subsection \<open>Generic activity\<close>

text \<open>
  \<^verbatim>\<open>new Date().toLocaleTimeString('en-US', { hour12: false })\<close> is the JavaScript
  runtime's formatter. It renders the wall-clock time of the server's time zone as two
  digits each for hour, minute and second, separated by colons. The time zone and the
  hour cycle the runtime picks for \<^verbatim>\<open>hour12: false\<close> (midnight as 00 or as 24) belong to
  the environment. \<open>tz_offset env t\<close> is what the zone adds to UTC at the instant \<open>t\<close>, in
  milliseconds; it depends on the instant where the zone has daylight saving time.
\<close>

datatype hour_cycle = H23 | H24

record runtime_env =
  tz_offset :: "int \<Rightarrow> int"
  hourCycle :: hour_cycle

definition digit_char :: "nat \<Rightarrow> char" where
  "digit_char d = ''0123456789'' ! (d mod 10)"

definition two_digits :: "nat \<Rightarrow> string" where
  "two_digits n = [digit_char (n div 10), digit_char (n mod 10)]"

definition toLocaleTimeString :: "runtime_env \<Rightarrow> int \<Rightarrow> string" where
  "toLocaleTimeString env t =
     (let secs = nat (((t + tz_offset env t) div 1000) mod 86400);
          h = secs div 3600;
          m = (secs mod 3600) div 60;
          sec = secs mod 60;
          hh = (if h = 0 \<and> hourCycle env = H24 then 24 else h)
      in two_digits hh @ '':'' @ two_digits m @ '':'' @ two_digits sec)"

text \<open>
  Reading a string of the form \<open>HH:MM:SS\<close> back: the three numbers it shows, or \<open>None\<close>
  when it is not eight characters with digits and colons in these places.
\<close>

definition is_digit :: "char \<Rightarrow> bool" where
  "is_digit c = (c \<in> set ''0123456789'')"

definition digit_value :: "char \<Rightarrow> nat" where
  "digit_value c = of_char c - 48"

definition clock_fields :: "string \<Rightarrow> (nat \<times> nat \<times> nat) option" where
  "clock_fields str =
     (case str of
        [a, b, p, c, d, q, e, f] \<Rightarrow>
          if p = CHR '':'' \<and> q = CHR '':'' \<and> is_digit a \<and> is_digit b \<and> is_digit c
             \<and> is_digit d \<and> is_digit e \<and> is_digit f
          then Some (10 * digit_value a + digit_value b,
                     10 * digit_value c + digit_value d,
                     10 * digit_value e + digit_value f)
          else None
      | _ \<Rightarrow> None)"

text \<open>
  Two environments for examples: a server on UTC, and one on United States Eastern
  time around the end of daylight saving time on 5 November 2023 at 06:00 UTC
  (four hours behind UTC before, five hours after).
\<close>

definition utc_env :: runtime_env where
  "utc_env = \<lparr>tz_offset = (\<lambda>t. 0), hourCycle = H23\<rparr>"

definition eastern_env :: runtime_env where
  "eastern_env =
     \<lparr>tz_offset = (\<lambda>t. if t < 1699164000000 then - 14400000 else - 18000000),
      hourCycle = H23\<rparr>"

text \<open>
  \<^verbatim>\<open>app.post('/api/monitoring/activity', ...)\<close>, up to the call of the query. \<open>event\<close> is
  \<^verbatim>\<open>req.body.event\<close> and \<open>dets\<close> the own enumerable properties of \<^verbatim>\<open>req.body.details\<close>,
  which is what the spread \<^verbatim>\<open>{ ...details, timestamp }\<close> copies (none for a missing
  value); a key that is already present keeps its place and takes the new value,
  a new key goes last.
\<close>

definition activity ::
  "runtime_env \<Rightarrow> int \<Rightarrow> jsval \<Rightarrow> (string \<times> jsval) list \<Rightarrow> nat \<Rightarrow> server_state
     \<Rightarrow> server_state \<times> outcome" where
  "activity env now event dets userId s =
     (let timestamp = JStr (toLocaleTimeString env now);
          updatedDetails = AList.update ''timestamp'' timestamp dets
      in (s, Issued \<lparr>user_id = userId, event_type = event, details = updatedDetails\<rparr>))"

definition activity_callback :: "string option \<Rightarrow> response" where
  "activity_callback err =
     (case err of
        Some _ \<Rightarrow> \<lparr>status = 500, body = ''Internal Server Error''\<rparr>
      | None \<Rightarrow> \<lparr>status = 200, body = ''Activity data received''\<rparr>)"

section \<open>Authentication middleware and routing\<close>

text \<open>\<^verbatim>\<open>String.prototype.split\<close> with a one-character separator.\<close>

fun split :: "char \<Rightarrow> string \<Rightarrow> string list" where
  "split c [] = [[]]"
| "split c (x # xs) =
     (if x = c then [] # split c xs
      else (case split c xs of
              [] \<Rightarrow> [[x]]
            | w # ws \<Rightarrow> (x # w) # ws))"

text \<open>
  \<^verbatim>\<open>authHeader && authHeader.split(' ')[1]\<close>: a missing header gives \<^verbatim>\<open>undefined\<close>, the
  empty string (falsy) gives itself, and otherwise the second field, \<^verbatim>\<open>undefined\<close> when
  there is none.
\<close>

definition token_of :: "string option \<Rightarrow> string option" where
  "token_of authHeader =
     (case authHeader of
        None \<Rightarrow> None
      | Some h \<Rightarrow>
          if h = [] then Some []
          else (case split CHR '' '' h of
                  _ # t # _ \<Rightarrow> Some t
                | _ \<Rightarrow> None))"

datatype route = PageVisit | PageLeave | Activity jsval "(string \<times> jsval) list"

record request =
  authorization :: "string option"
  route :: route

datatype auth_result = Rejected response | Next nat

text \<open>
  \<^verbatim>\<open>authenticateToken\<close>. \<open>verify\<close> stands for \<^verbatim>\<open>jwt.verify(token, process.env.JWT_SECRET, ...)\<close>:
  \<open>None\<close> when it reports an error, otherwise the \<^verbatim>\<open>id\<close> of the decoded payload, which
  becomes \<^verbatim>\<open>req.user.id\<close>. \<^verbatim>\<open>res.sendStatus\<close> sends the status text as the body.
\<close>

definition authenticateToken :: "(string \<Rightarrow> nat option) \<Rightarrow> request \<Rightarrow> auth_result" where
  "authenticateToken verify req =
     (case token_of (authorization req) of
        None \<Rightarrow> Rejected \<lparr>status = 401, body = ''Unauthorized''\<rparr>
      | Some token \<Rightarrow>
          (case verify token of
             None \<Rightarrow> Rejected \<lparr>status = 403, body = ''Forbidden''\<rparr>
           | Some userId \<Rightarrow> Next userId))"

text \<open>
  A verifier for examples: it accepts one token, issued to the principal 7, and reports
  an error for every other string, the empty one included (\<^verbatim>\<open>jwt must be provided\<close>).
\<close>

definition sample_verify :: "string \<Rightarrow> nat option" where
  "sample_verify token = (if token = ''k7'' then Some 7 else None)"

text \<open>The route handler that runs once the middleware has called \<^verbatim>\<open>next()\<close>.\<close>

definition dispatch ::
  "runtime_env \<Rightarrow> int \<Rightarrow> route \<Rightarrow> nat \<Rightarrow> server_state \<Rightarrow> server_state \<times> outcome" where
  "dispatch env now rt userId s =
     (case rt of
        PageVisit \<Rightarrow> page_visit now userId s
      | PageLeave \<Rightarrow> page_leave now userId s
      | Activity event dets \<Rightarrow> activity env now event dets userId s)"

definition callback_of :: "route \<Rightarrow> string option \<Rightarrow> response" where
  "callback_of rt err =
     (case rt of
        PageVisit \<Rightarrow> page_visit_callback err
      | PageLeave \<Rightarrow> page_leave_callback err
      | Activity _ _ \<Rightarrow> activity_callback err)"

text \<open>
  \<^verbatim>\<open>app.use('/api/monitoring', authenticateToken)\<close> in front of the three routes: the
  synchronous work one request causes.
\<close>

definition handle ::
  "(string \<Rightarrow> nat option) \<Rightarrow> runtime_env \<Rightarrow> int \<Rightarrow> request \<Rightarrow> server_state
     \<Rightarrow> server_state \<times> outcome" where
  "handle verify env now req s =
     (case authenticateToken verify req of
        Rejected r \<Rightarrow> (s, Sent r)
      | Next userId \<Rightarrow> dispatch env now (route req) userId s)"

section \<open>Operations run to completion\<close>

text \<open>
  An operation of the session tracker for an authenticated principal: the handler, then
  the callback of its query with the storage's answer \<open>err\<close>. The result is the new
  state, the queries handed to the storage, and the response.
\<close>

definition run_to_completion ::
  "route \<Rightarrow> string option \<Rightarrow> server_state \<times> outcome \<Rightarrow> server_state \<times> query list \<times> response" where
  "run_to_completion rt err r =
     (case snd r of
        Sent resp \<Rightarrow> (fst r, [], resp)
      | Issued q \<Rightarrow> (fst r, [q], callback_of rt err))"

definition RecordVisit ::
  "int \<Rightarrow> string option \<Rightarrow> nat \<Rightarrow> server_state \<Rightarrow> server_state \<times> query list \<times> response" where
  "RecordVisit now err P s = run_to_completion PageVisit err (page_visit now P s)"

definition RecordLeave ::
  "int \<Rightarrow> string option \<Rightarrow> nat \<Rightarrow> server_state \<Rightarrow> server_state \<times> query list \<times> response" where
  "RecordLeave now err P s = run_to_completion PageLeave err (page_leave now P s)"

definition RecordActivity ::
  "runtime_env \<Rightarrow> int \<Rightarrow> string option \<Rightarrow> nat \<Rightarrow> jsval \<Rightarrow> (string \<times> jsval) list
     \<Rightarrow> server_state \<Rightarrow> server_state \<times> query list \<times> response" where
  "RecordActivity env now err P event dets s =
     run_to_completion (Activity event dets) err (activity env now event dets P s)"

text \<open>The query the page-visit handler issues when it opens a session.\<close>

definition visit_query :: "nat \<Rightarrow> int \<Rightarrow> query" where
  "visit_query P t =
     \<lparr>user_id = P, event_type = JStr ''Page Visit'',
      details = [(''action'', JStr ''Page Visit''), (''timestamp'', JDate t)]\<rparr>"

definition leave_query :: "nat \<Rightarrow> int \<Rightarrow> int \<Rightarrow> query" where
  "leave_query P t spent =
     \<lparr>user_id = P, event_type = JStr ''Page Leave'',
      details = [(''action'', JStr ''Page Leave''), (''timestamp'', JDate t),
                 (''timeSpent'', JNum spent)]\<rparr>"

section \<open>Signaling relay\<close>

text \<open>
  socket.io keeps the connected sockets of the namespace in a map keyed by socket id;
  the model keeps the ids in connection order. A socket is in the map when the
  \<^verbatim>\<open>'connection'\<close> listener runs, and \<^verbatim>\<open>server.js\<close> registers no middleware
  (\<^verbatim>\<open>io.use\<close>) in front of it: nothing of the handshake is read.
\<close>

record handshake =
  hs_authorization :: "string option"
  hs_auth :: jsval

record relay_state =
  sockets :: "string list"

definition on_connection :: "handshake \<Rightarrow> string \<Rightarrow> relay_state \<Rightarrow> relay_state" where
  "on_connection hs sid r =
     r\<lparr>sockets := (if sid \<in> set (sockets r) then sockets r else sockets r @ [sid])\<rparr>"

definition on_disconnect :: "string \<Rightarrow> relay_state \<Rightarrow> relay_state" where
  "on_disconnect sid r = r\<lparr>sockets := removeAll sid (sockets r)\<rparr>"

text \<open>
  \<^verbatim>\<open>socket.broadcast.emit(name, payload)\<close>: one packet for every socket of the namespace
  but the sender. A delivery is (recipient, event name, payload).
\<close>

definition broadcast_emit ::
  "string \<Rightarrow> string \<Rightarrow> jsval \<Rightarrow> relay_state \<Rightarrow> (string \<times> string \<times> jsval) list" where
  "broadcast_emit sid name payload r =
     map (\<lambda>p. (p, name, payload)) (filter (\<lambda>p. p \<noteq> sid) (sockets r))"

datatype signal = Offer jsval | Answer jsval | IceCandidate jsval

text \<open>The three \<^verbatim>\<open>socket.on(...)\<close> listeners of the socket \<open>sid\<close>.\<close>

fun on_signal :: "string \<Rightarrow> signal \<Rightarrow> relay_state \<Rightarrow> (string \<times> string \<times> jsval) list" where
  "on_signal sid (Offer offer) r = broadcast_emit sid ''offer'' offer r"
| "on_signal sid (Answer answer) r = broadcast_emit sid ''answer'' answer r"
| "on_signal sid (IceCandidate candidate) r = broadcast_emit sid ''ice-candidate'' candidate r"

fun signal_name :: "signal \<Rightarrow> string" where
  "signal_name (Offer _) = ''offer''"
| "signal_name (Answer _) = ''answer''"
| "signal_name (IceCandidate _) = ''ice-candidate''"

fun signal_payload :: "signal \<Rightarrow> jsval" where
  "signal_payload (Offer x) = x"
| "signal_payload (Answer x) = x"
| "signal_payload (IceCandidate x) = x"

section \<open>The event loop\<close>

text \<open>
  Node runs one task at a time, each to completion. The synchronous part of a request
  (middleware and route handler, which contain no asynchronous boundary before
  \<^verbatim>\<open>connection.query\<close>) is one task; the callback of a query is a later task of its own.
  Requests that are in flight at the same time show as interleavings of these tasks.
  \<open>issued\<close> lists the queries handed to the storage, \<open>pending\<close> the requests waiting for
  their callback, \<open>sent\<close> the responses.
\<close>

record loop_state =
  server :: server_state
  issued :: "query list"
  pending :: "(nat \<times> route) list"
  sent :: "(nat \<times> response) list"

definition initial_loop :: loop_state where
  "initial_loop = \<lparr>server = initial_state, issued = [], pending = [], sent = []\<rparr>"

datatype event =
    Arrive nat request int
  | DbDone nat "string option"

fun step ::
  "(string \<Rightarrow> nat option) \<Rightarrow> runtime_env \<Rightarrow> loop_state \<Rightarrow> event \<Rightarrow> loop_state" where
  "step verify env st (Arrive rid req now) =
     (case handle verify env now req (server st) of
        (s', Sent r) \<Rightarrow> st\<lparr>server := s', sent := sent st @ [(rid, r)]\<rparr>
      | (s', Issued q) \<Rightarrow>
          st\<lparr>server := s', issued := issued st @ [q],
             pending := pending st @ [(rid, route req)]\<rparr>)"
| "step verify env st (DbDone rid err) =
     (case map_of (pending st) rid of
        None \<Rightarrow> st
      | Some rt \<Rightarrow>
          st\<lparr>pending := filter (\<lambda>p. fst p \<noteq> rid) (pending st),
             sent := sent st @ [(rid, callback_of rt err)]\<rparr>)"

definition run ::
  "(string \<Rightarrow> nat option) \<Rightarrow> runtime_env \<Rightarrow> loop_state \<Rightarrow> event list \<Rightarrow> loop_state" where
  "run verify env st es = foldl (step verify env) st es"

text \<open>The session invariant of the two objects, for one principal.\<close>

definition session_inv :: "server_state \<Rightarrow> nat \<Rightarrow> bool" where
  "session_inv s P =
     (pageVisitLogged s P \<noteq> Some False \<and>
      truthy (pageVisitLogged s P) = (userVisitTimes s P \<noteq> None))"

text \<open>Callbacks of queries, as events: (request, error reported by the driver).\<close>

definition db_events :: "(nat \<times> string option) list \<Rightarrow> event list" where
  "db_events cbs = map (\<lambda>c. DbDone (fst c) (snd c)) cbs"

section \<open>Basic facts\<close>

lemma page_visit_closed:
  "\<not> truthy (pageVisitLogged s P) \<Longrightarrow>
   page_visit t P s =
     (s\<lparr>pageVisitLogged := (pageVisitLogged s)(P \<mapsto> True),
        userVisitTimes := (userVisitTimes s)(P \<mapsto> \<lparr>visitTime = t\<rparr>)\<rparr>,
      Issued (visit_query P t))"
  by (simp add: page_visit_def visit_query_def)

lemma page_visit_open:
  "truthy (pageVisitLogged s P) \<Longrightarrow>
   page_visit t P s = (s, Sent \<lparr>status = 200, body = ''Page visit already recorded''\<rparr>)"
  by (simp add: page_visit_def)

lemma page_leave_eq:
  "page_leave t P s =
     (s\<lparr>userVisitTimes := (userVisitTimes s)(P := None),
        pageVisitLogged := (pageVisitLogged s)(P := None)\<rparr>,
      Issued (leave_query P t (timeSpent_of t (userVisitTimes s P))))"
  by (simp add: page_leave_def leave_query_def)

lemma truthy_simps [simp]:
  "truthy None = False" "truthy (Some b) = b"
  by (simp_all add: truthy_def)

section \<open>Session tracker: visit, leave, visit again\<close>

text \<open>
  C1. Two page-visit requests of a principal \<open>P\<close> in succession, with no session open
  before the first and no page-leave between them: the first opens the session, stores
  its own time as the visit time and hands exactly one \<open>Page Visit\<close> record to the
  storage; the second hands nothing to the storage, leaves both objects as they are (the
  visit time stays that of the first call) and answers 200, whatever the storage would
  have said.
\<close>

theorem RecordVisit_twice_once:
  assumes "\<not> truthy (pageVisitLogged s P)"
  shows "\<exists>s1. RecordVisit t1 e1 P s = (s1, [visit_query P t1], page_visit_callback e1)
           \<and> userVisitTimes s1 = (userVisitTimes s)(P \<mapsto> \<lparr>visitTime = t1\<rparr>)
           \<and> pageVisitLogged s1 = (pageVisitLogged s)(P \<mapsto> True)
           \<and> RecordVisit t2 e2 P s1 =
               (s1, [], \<lparr>status = 200, body = ''Page visit already recorded''\<rparr>)"
  using assms
  by (simp add: RecordVisit_def run_to_completion_def page_visit_closed page_visit_open
      callback_of_def)

theorem RecordVisit_twice_once_witness:
  "\<exists>s1. RecordVisit 1000 None 7 initial_state =
           (s1, [visit_query 7 1000], page_visit_callback None)
         \<and> userVisitTimes s1 = (userVisitTimes initial_state)(7 \<mapsto> \<lparr>visitTime = 1000\<rparr>)
         \<and> pageVisitLogged s1 = (pageVisitLogged initial_state)(7 \<mapsto> True)
         \<and> RecordVisit 2500 (Some ''ECONNRESET'') 7 s1 =
             (s1, [], \<lparr>status = 200, body = ''Page visit already recorded''\<rparr>)"
  using RecordVisit_twice_once [of initial_state 7 1000 None 2500 "Some ''ECONNRESET''"]
  by (simp add: initial_state_def)

text \<open>
  C2. A page-leave request of \<open>P\<close> at time \<open>t1\<close> hands one \<open>Page Leave\<close> record to the
  storage. With a session open since \<open>t0\<close> its \<open>timeSpent\<close> is the floor of
  \<open>(t1 - t0) / 1000\<close>, the whole seconds between the two times; with no session open it
  is 0, and the request is answered like any other page-leave: 200 when the storage
  accepts the record.
\<close>

theorem RecordLeave_time_spent:
  "(userVisitTimes s P = Some \<lparr>visitTime = t0\<rparr> \<longrightarrow>
      snd (RecordLeave t1 err P s) =
        ([leave_query P t1 ((t1 - t0) div 1000)], page_leave_callback err)
      \<and> (t1 - t0) div 1000 = \<lfloor>real_of_int (t1 - t0) / 1000\<rfloor>)
   \<and> (userVisitTimes s P = None \<longrightarrow>
      snd (RecordLeave t1 err P s) = ([leave_query P t1 0], page_leave_callback err))
   \<and> page_leave_callback None = \<lparr>status = 200, body = ''Page leave recorded''\<rparr>"
  using floor_divide_of_int_eq [of "t1 - t0" 1000, where ?'a = real]
  by (simp add: RecordLeave_def run_to_completion_def page_leave_eq callback_of_def
      timeSpent_of_def page_leave_callback_def)

theorem RecordLeave_time_spent_witness:
  "snd (RecordLeave 4500 None 7 (fst (RecordVisit 1000 None 7 initial_state))) =
     ([leave_query 7 4500 3], \<lparr>status = 200, body = ''Page leave recorded''\<rparr>)
   \<and> snd (RecordLeave 4500 None 7 initial_state) =
     ([leave_query 7 4500 0], \<lparr>status = 200, body = ''Page leave recorded''\<rparr>)"
  using RecordLeave_time_spent
          [of "fst (RecordVisit 1000 None 7 initial_state)" 7 1000 4500 None]
        RecordLeave_time_spent [of initial_state 7 0 4500 None]
  by (simp add: RecordVisit_def run_to_completion_def page_visit_def initial_state_def)

text \<open>
  C3. After a page-leave request of \<open>P\<close>, from any state (a session open or not), the
  next page-visit request of \<open>P\<close> is not taken for a duplicate: it opens a session with
  its own time as the visit time and hands a new \<open>Page Visit\<close> record to the storage; it
  is answered 200 when the storage accepts the record.
\<close>

theorem RecordVisit_after_leave:
  "RecordVisit t2 e2 P (fst (RecordLeave t1 e1 P s)) =
     ((fst (RecordLeave t1 e1 P s))
        \<lparr>pageVisitLogged := (pageVisitLogged (fst (RecordLeave t1 e1 P s)))(P \<mapsto> True),
         userVisitTimes :=
           (userVisitTimes (fst (RecordLeave t1 e1 P s)))(P \<mapsto> \<lparr>visitTime = t2\<rparr>)\<rparr>,
      [visit_query P t2], page_visit_callback e2)
   \<and> page_visit_callback None = \<lparr>status = 200, body = ''Page visit recorded''\<rparr>"
  by (simp add: RecordLeave_def RecordVisit_def run_to_completion_def page_leave_eq
      page_visit_closed callback_of_def page_visit_callback_def)

text \<open>
  C5. When the storage rejects the insert of a page-visit request of \<open>P\<close> (no session open
  before), the caller gets 500, and the two objects keep what the handler wrote before
  the query: the session of \<open>P\<close> is open with the visit time of the failed call. A retry
  therefore takes the duplicate branch: no record is handed to the storage, nothing
  changes, and the answer is 200.
\<close>

theorem RecordVisit_storage_failure:
  assumes "\<not> truthy (pageVisitLogged s P)"
  shows "\<exists>s1. RecordVisit t1 (Some e) P s =
             (s1, [visit_query P t1], \<lparr>status = 500, body = ''Internal Server Error''\<rparr>)
           \<and> truthy (pageVisitLogged s1 P)
           \<and> userVisitTimes s1 P = Some \<lparr>visitTime = t1\<rparr>
           \<and> RecordVisit t2 e2 P s1 =
               (s1, [], \<lparr>status = 200, body = ''Page visit already recorded''\<rparr>)"
  using assms
  by (simp add: RecordVisit_def run_to_completion_def page_visit_closed page_visit_open
      callback_of_def page_visit_callback_def)

theorem RecordVisit_storage_failure_witness:
  "\<exists>s1. RecordVisit 1000 (Some ''ER_LOCK_DEADLOCK'') 7 initial_state =
             (s1, [visit_query 7 1000], \<lparr>status = 500, body = ''Internal Server Error''\<rparr>)
           \<and> truthy (pageVisitLogged s1 7)
           \<and> userVisitTimes s1 7 = Some \<lparr>visitTime = 1000\<rparr>
           \<and> RecordVisit 2000 None 7 s1 =
               (s1, [], \<lparr>status = 200, body = ''Page visit already recorded''\<rparr>)"
  using RecordVisit_storage_failure [of initial_state 7 1000 "''ER_LOCK_DEADLOCK''" 2000 None]
  by (simp add: initial_state_def)

section \<open>Generic activity\<close>

text \<open>
  C7. An activity request of \<open>P\<close> with event name \<open>event\<close> and details \<open>dets\<close> hands
  exactly one record to the storage, with \<open>event\<close> as its event type and the details
  stamped with the server's \<open>timestamp\<close>. It does so from every state and leaves the
  state as it is: the record and the response are the same whatever the two objects hold
  (a session open for \<open>P\<close> or not), and a repeated request hands over the record again.
\<close>

theorem RecordActivity_unconditional:
  "RecordActivity env now err P event dets s =
     (s,
      [\<lparr>user_id = P, event_type = event,
        details = AList.update ''timestamp'' (JStr (toLocaleTimeString env now)) dets\<rparr>],
      activity_callback err)
   \<and> snd (RecordActivity env now err P event dets s') =
       snd (RecordActivity env now err P event dets s)
   \<and> fst (snd (RecordActivity env now err P event dets
                 (fst (RecordActivity env now err P event dets s)))) =
       fst (snd (RecordActivity env now err P event dets s))"
  by (simp add: RecordActivity_def run_to_completion_def activity_def callback_of_def)

lemma digit_char_digit: "digit_char d \<in> set ''0123456789''"
  unfolding digit_char_def by (rule nth_mem) simp

lemma two_digits_shape:
  "\<exists>a b. two_digits n = [a, b] \<and> a \<in> set ''0123456789'' \<and> b \<in> set ''0123456789''"
  using digit_char_digit [of "n div 10"] digit_char_digit [of "n mod 10"]
  by (simp add: two_digits_def)

lemma clock_shape:
  "\<exists>a b c d e f. two_digits x @ '':'' @ two_digits y @ '':'' @ two_digits z
        = [a, b, CHR '':'', c, d, CHR '':'', e, f]
      \<and> set [a, b, c, d, e, f] \<subseteq> set ''0123456789''"
proof -
  obtain a b where ab:
    "two_digits x = [a, b]" "a \<in> set ''0123456789''" "b \<in> set ''0123456789''"
    using two_digits_shape by blast
  obtain c d where cd:
    "two_digits y = [c, d]" "c \<in> set ''0123456789''" "d \<in> set ''0123456789''"
    using two_digits_shape by blast
  obtain e f where ef:
    "two_digits z = [e, f]" "e \<in> set ''0123456789''" "f \<in> set ''0123456789''"
    using two_digits_shape by blast
  have "two_digits x @ '':'' @ two_digits y @ '':'' @ two_digits z
        = [a, b, CHR '':'', c, d, CHR '':'', e, f]"
    by (simp add: ab(1) cd(1) ef(1))
  moreover have "set [a, b, c, d, e, f] \<subseteq> set ''0123456789''"
    using ab(2,3) cd(2,3) ef(2,3) by simp
  ultimately show ?thesis by blast
qed

lemma toLocaleTimeString_shape:
  "\<exists>a b c d e f. toLocaleTimeString env t = [a, b, CHR '':'', c, d, CHR '':'', e, f]
      \<and> set [a, b, c, d, e, f] \<subseteq> set ''0123456789''"
  unfolding toLocaleTimeString_def Let_def by (rule clock_shape)

lemma digit_char_read: "is_digit (digit_char d) \<and> digit_value (digit_char d) = d mod 10"
proof -
  have "d mod 10 < 10" by simp
  then consider "d mod 10 = 0" | "d mod 10 = 1" | "d mod 10 = 2" | "d mod 10 = 3"
    | "d mod 10 = 4" | "d mod 10 = 5" | "d mod 10 = 6" | "d mod 10 = 7"
    | "d mod 10 = 8" | "d mod 10 = 9"
    by atomize_elim arith
  then show ?thesis
    by cases (simp_all add: digit_char_def is_digit_def digit_value_def)
qed

lemma two_digit_number:
  assumes "n < 100"
  shows "10 * (n div 10 mod 10) + n mod 10 = (n::nat)"
proof -
  have "n < 10 * 10" using assms by simp
  then have "n div 10 < 10" by (rule less_mult_imp_div_less)
  then show ?thesis by simp
qed

lemma clock_fields_two_digits:
  assumes "x < 100" "y < 100" "z < 100"
  shows "clock_fields (two_digits x @ '':'' @ two_digits y @ '':'' @ two_digits z)
         = Some (x, y, z)"
  using assms
  by (simp add: clock_fields_def two_digits_def digit_char_read two_digit_number)

lemma clock_of_second:
  assumes "sod < 86400"
  shows "clock_fields
           (two_digits (if sod div 3600 = 0 \<and> hc = H24 then 24 else sod div 3600)
            @ '':'' @ two_digits (sod mod 3600 div 60) @ '':'' @ two_digits (sod mod 60)) =
         Some (if sod div 3600 = 0 \<and> hc = H24 then 24 else sod div 3600,
               sod mod 3600 div 60, sod mod 60)
       \<and> sod div 3600 < 24 \<and> sod mod 3600 div 60 < 60 \<and> sod mod 60 < 60"
proof -
  have "sod < 24 * 3600" using assms by simp
  then have h: "sod div 3600 < 24" by (rule less_mult_imp_div_less)
  have "sod mod 3600 < 60 * 60" by simp
  then have m: "sod mod 3600 div 60 < 60" by (rule less_mult_imp_div_less)
  have s: "sod mod 60 < 60" by simp
  have hh: "(if sod div 3600 = 0 \<and> hc = H24 then 24 else sod div 3600) < 100"
    using h by simp
  have m': "sod mod 3600 div 60 < 100" using m by simp
  have s': "sod mod 60 < 100" using s by simp
  show ?thesis
    using clock_fields_two_digits [OF hh m' s'] h m s by (simp only: simp_thms)
qed

lemma toLocaleTimeString_fields:
  "clock_fields (toLocaleTimeString env now) =
     Some (if nat (((now + tz_offset env now) div 1000) mod 86400) div 3600 = 0
              \<and> hourCycle env = H24
           then 24 else nat (((now + tz_offset env now) div 1000) mod 86400) div 3600,
           nat (((now + tz_offset env now) div 1000) mod 86400) mod 3600 div 60,
           nat (((now + tz_offset env now) div 1000) mod 86400) mod 60)
   \<and> nat (((now + tz_offset env now) div 1000) mod 86400) div 3600 < 24
   \<and> nat (((now + tz_offset env now) div 1000) mod 86400) mod 3600 div 60 < 60
   \<and> nat (((now + tz_offset env now) div 1000) mod 86400) mod 60 < 60"
proof -
  have "nat (((now + tz_offset env now) div 1000) mod 86400) < 86400" by simp
  then show ?thesis
    unfolding toLocaleTimeString_def Let_def by (rule clock_of_second)
qed

lemma toLocaleTimeString_same_clock:
  "nat (((t + tz_offset env t) div 1000) mod 86400) =
     nat (((t' + tz_offset env t') div 1000) mod 86400)
   \<Longrightarrow> toLocaleTimeString env t = toLocaleTimeString env t'"
  unfolding toLocaleTimeString_def Let_def by (erule subst) (rule refl)

text \<open>
  C10. The timestamp that the activity handler stamps into the details is the time of
  day of the server's wall clock at the request, as a string of eight characters: read
  back, it gives the hour (0 to 23, midnight as 24 where the runtime's hour cycle says
  so), the minute and the second of the local time, each as two digits, with colons
  between them. It carries no date: two instants at which the wall clock shows the same
  second of the day get the same string. It replaces whatever \<open>timestamp\<close> the caller
  supplied: looking up \<open>timestamp\<close> in the record's details gives the server's string.
  The page-visit and page-leave handlers record the \<^verbatim>\<open>Date\<close> itself instead.
\<close>

theorem activity_timestamp_is_clock_time:
  "(\<exists>a b c d e f. toLocaleTimeString env now = [a, b, CHR '':'', c, d, CHR '':'', e, f]
      \<and> set [a, b, c, d, e, f] \<subseteq> set ''0123456789'')
   \<and> clock_fields (toLocaleTimeString env now) =
       Some (if nat (((now + tz_offset env now) div 1000) mod 86400) div 3600 = 0
                \<and> hourCycle env = H24
             then 24 else nat (((now + tz_offset env now) div 1000) mod 86400) div 3600,
             nat (((now + tz_offset env now) div 1000) mod 86400) mod 3600 div 60,
             nat (((now + tz_offset env now) div 1000) mod 86400) mod 60)
   \<and> nat (((now + tz_offset env now) div 1000) mod 86400) div 3600 < 24
   \<and> nat (((now + tz_offset env now) div 1000) mod 86400) mod 3600 div 60 < 60
   \<and> nat (((now + tz_offset env now) div 1000) mod 86400) mod 60 < 60
   \<and> (nat (((t + tz_offset env t) div 1000) mod 86400) =
         nat (((t' + tz_offset env t') div 1000) mod 86400)
       \<longrightarrow> toLocaleTimeString env t = toLocaleTimeString env t')
   \<and> (\<exists>q. snd (activity env now event dets P s) = Issued q
         \<and> map_of (details q) ''timestamp'' = Some (JStr (toLocaleTimeString env now)))
   \<and> (\<not> truthy (pageVisitLogged s P) \<longrightarrow>
        (\<exists>q. snd (page_visit now P s) = Issued q
           \<and> map_of (details q) ''timestamp'' = Some (JDate now)))
   \<and> (\<exists>q. snd (page_leave now P s) = Issued q
         \<and> map_of (details q) ''timestamp'' = Some (JDate now))"
proof -
  have handlers:
    "(\<exists>q. snd (activity env now event dets P s) = Issued q
         \<and> map_of (details q) ''timestamp'' = Some (JStr (toLocaleTimeString env now)))
     \<and> (\<not> truthy (pageVisitLogged s P) \<longrightarrow>
        (\<exists>q. snd (page_visit now P s) = Issued q
           \<and> map_of (details q) ''timestamp'' = Some (JDate now)))
     \<and> (\<exists>q. snd (page_leave now P s) = Issued q
         \<and> map_of (details q) ''timestamp'' = Some (JDate now))"
    by (simp add: activity_def page_visit_def page_leave_def update_conv')
  show ?thesis
    using toLocaleTimeString_shape [of env now] toLocaleTimeString_fields [of env now]
      toLocaleTimeString_same_clock [of t env t'] handlers
    by blast
qed

theorem activity_timestamp_is_clock_time_witness:
  "snd (activity eastern_env 1700000000000 (JStr ''click'')
          [(''timestamp'', JStr ''spoofed''), (''x'', JNum 1)] 7 initial_state) =
     Issued \<lparr>user_id = 7, event_type = JStr ''click'',
             details = [(''timestamp'', JStr ''17:13:20''), (''x'', JNum 1)]\<rparr>
   \<and> clock_fields (toLocaleTimeString eastern_env 1700000000000) = Some (17, 13, 20)
   \<and> toLocaleTimeString eastern_env 1697408000000 = ''18:13:20''
   \<and> toLocaleTimeString eastern_env 1700086400000 = toLocaleTimeString eastern_env 1700000000000
   \<and> snd (page_visit 1700000000000 7 initial_state) =
     Issued \<lparr>user_id = 7, event_type = JStr ''Page Visit'',
             details = [(''action'', JStr ''Page Visit''),
                        (''timestamp'', JDate 1700000000000)]\<rparr>"
  using activity_timestamp_is_clock_time
          [where env = eastern_env and now = 1700000000000 and t = 1700086400000
             and t' = 1700000000000 and event = "JStr ''click''"
             and dets = "[(''timestamp'', JStr ''spoofed''), (''x'', JNum 1)]"
             and P = 7 and s = initial_state]
  by (simp add: activity_def page_visit_def initial_state_def toLocaleTimeString_def
      two_digits_def digit_char_def eastern_env_def)

section \<open>Authentication in front of the tracker, none in front of the relay\<close>

lemma split_no_sep: "c \<notin> set h \<Longrightarrow> split c h = [h]"
  by (induction h) auto

lemma token_none_iff:
  "(token_of a = None) =
     (a = None \<or> (\<exists>h. a = Some h \<and> h \<noteq> [] \<and> length (split CHR '' '' h) < 2))"
  by (cases a) (auto simp: token_of_def split: list.splits)

text \<open>
  C6, as the claim states it, fails: a request with an empty \<^verbatim>\<open>Authorization\<close> header
  carries no bearer token, yet it is answered 403, not 401. The empty header value is
  falsy, so \<^verbatim>\<open>authHeader && ...\<close> yields the empty string itself; that is not
  \<^verbatim>\<open>null\<close>, so it is handed to \<^verbatim>\<open>jwt.verify\<close>, which reports an error.
\<close>

theorem auth_gate_empty_header_counterexample:
  "handle sample_verify utc_env 1000 \<lparr>authorization = Some [], route = PageVisit\<rparr>
     initial_state =
   (initial_state, Sent \<lparr>status = 403, body = ''Forbidden''\<rparr>)"
  by (simp add: handle_def authenticateToken_def token_of_def sample_verify_def)

text \<open>
  C6, amended. For each of the three routes under \<^verbatim>\<open>/api/monitoring\<close>: a request from
  which no token is read (\<^verbatim>\<open>token == null\<close>) is answered 401, and that is the case
  exactly when there is no \<^verbatim>\<open>Authorization\<close> header or the header is not empty and has
  no second space-separated field (a bare \<open>Bearer\<close>). A request whose token
  \<^verbatim>\<open>jwt.verify\<close> rejects is answered 403, and the token read from an empty header is the
  empty string, which goes to \<^verbatim>\<open>jwt.verify\<close> like any other. In both cases the route
  handler does not run: the state is unchanged and no query is issued. A socket that
  connects to the relay joins the connected sockets whatever its handshake carries.
\<close>

theorem auth_gate:
  "(token_of (authorization req) = None \<longrightarrow>
      handle verify env now req s = (s, Sent \<lparr>status = 401, body = ''Unauthorized''\<rparr>))
   \<and> (token_of (authorization req) = Some tok \<and> verify tok = None \<longrightarrow>
      handle verify env now req s = (s, Sent \<lparr>status = 403, body = ''Forbidden''\<rparr>))
   \<and> (token_of a = None) =
       (a = None \<or> (\<exists>h. a = Some h \<and> h \<noteq> [] \<and> length (split CHR '' '' h) < 2))
   \<and> (h \<noteq> [] \<and> CHR '' '' \<notin> set h \<longrightarrow> token_of (Some h) = None)
   \<and> token_of (Some []) = Some []
   \<and> sid \<in> set (sockets (on_connection hs sid r))
   \<and> on_connection hs sid r = on_connection hs' sid r"
proof -
  have gate:
    "(token_of (authorization req) = None \<longrightarrow>
        handle verify env now req s = (s, Sent \<lparr>status = 401, body = ''Unauthorized''\<rparr>))
     \<and> (token_of (authorization req) = Some tok \<and> verify tok = None \<longrightarrow>
        handle verify env now req s = (s, Sent \<lparr>status = 403, body = ''Forbidden''\<rparr>))"
    by (simp add: handle_def authenticateToken_def)
  have fields: "(h \<noteq> [] \<and> CHR '' '' \<notin> set h \<longrightarrow> token_of (Some h) = None)
      \<and> token_of (Some []) = Some []"
    by (simp add: token_of_def split_no_sep)
  have relay: "sid \<in> set (sockets (on_connection hs sid r))
      \<and> on_connection hs sid r = on_connection hs' sid r"
    by (simp add: on_connection_def)
  show ?thesis
    using gate fields relay token_none_iff [of a] by blast
qed

theorem auth_gate_witness:
  "handle sample_verify utc_env 1000
      \<lparr>authorization = None, route = PageVisit\<rparr> initial_state =
     (initial_state, Sent \<lparr>status = 401, body = ''Unauthorized''\<rparr>)
   \<and> handle sample_verify utc_env 1000
      \<lparr>authorization = Some ''Bearer'', route = Activity JNull []\<rparr> initial_state =
     (initial_state, Sent \<lparr>status = 401, body = ''Unauthorized''\<rparr>)
   \<and> handle sample_verify utc_env 1000
      \<lparr>authorization = Some ''Bearer e30.e30.x'', route = PageLeave\<rparr> initial_state =
     (initial_state, Sent \<lparr>status = 403, body = ''Forbidden''\<rparr>)
   \<and> ''s1'' \<in> set (sockets (on_connection \<lparr>hs_authorization = None, hs_auth = JUndefined\<rparr>
                               ''s1'' \<lparr>sockets = []\<rparr>))"
  using auth_gate [where req = "\<lparr>authorization = None, route = PageVisit\<rparr>"
                     and verify = sample_verify and env = utc_env
                     and now = 1000 and s = initial_state and h = "''Bearer''"
                     and sid = "''s1''" and r = "\<lparr>sockets = []\<rparr>"
                     and hs = "\<lparr>hs_authorization = None, hs_auth = JUndefined\<rparr>"]
        auth_gate [where req = "\<lparr>authorization = Some ''Bearer'', route = Activity JNull []\<rparr>"
                     and verify = sample_verify and env = utc_env
                     and now = 1000 and s = initial_state and h = "''Bearer''"]
        auth_gate [where req = "\<lparr>authorization = Some ''Bearer e30.e30.x'', route = PageLeave\<rparr>"
                     and verify = sample_verify and env = utc_env
                     and now = 1000 and s = initial_state and tok = "''e30.e30.x''"]
  by (simp add: token_of_def sample_verify_def)

section \<open>Signaling relay: broadcast to the others\<close>

lemma on_connection_distinct:
  "distinct (sockets r) \<Longrightarrow> distinct (sockets (on_connection hs sid r))"
  by (simp add: on_connection_def)

text \<open>
  C4. For each of the three kinds of message (offer, answer, ice-candidate): when socket
  \<open>A\<close> sends one while \<open>B\<close> and \<open>C\<close> are connected, the relay emits it, under the same event
  name and with the same payload, to \<open>B\<close> and to \<open>C\<close>; the recipients are exactly the
  connected sockets other than \<open>A\<close>, each once, and \<open>A\<close> is never among them.
\<close>

theorem relay_broadcast_others:
  assumes "B \<in> set (sockets r)" "C \<in> set (sockets r)" "B \<noteq> A" "C \<noteq> A"
    and "distinct (sockets r)"
  shows "(B, signal_name m, signal_payload m) \<in> set (on_signal A m r)
       \<and> (C, signal_name m, signal_payload m) \<in> set (on_signal A m r)
       \<and> A \<notin> fst ` set (on_signal A m r)
       \<and> fst ` set (on_signal A m r) = set (sockets r) - {A}
       \<and> snd ` set (on_signal A m r) = {(signal_name m, signal_payload m)}
       \<and> distinct (map fst (on_signal A m r))
       \<and> signal_name m \<in> {''offer'', ''answer'', ''ice-candidate''}"
  using assms by (cases m) (auto simp: broadcast_emit_def image_iff comp_def)

theorem relay_broadcast_others_witness:
  "on_signal ''a'' (Offer (JStr ''sdp'')) \<lparr>sockets = [''a'', ''b'', ''c'']\<rparr> =
     [(''b'', ''offer'', JStr ''sdp''), (''c'', ''offer'', JStr ''sdp'')]
   \<and> (''b'', ''answer'', JStr ''sdp'') \<in>
       set (on_signal ''a'' (Answer (JStr ''sdp'')) \<lparr>sockets = [''a'', ''b'', ''c'']\<rparr>)
   \<and> (''c'', ''ice-candidate'', JNull) \<in>
       set (on_signal ''a'' (IceCandidate JNull) \<lparr>sockets = [''a'', ''b'', ''c'']\<rparr>)"
  using relay_broadcast_others [of "''b''" "\<lparr>sockets = [''a'', ''b'', ''c'']\<rparr>" "''c''" "''a''"
          "Offer (JStr ''sdp'')"]
        relay_broadcast_others [of "''b''" "\<lparr>sockets = [''a'', ''b'', ''c'']\<rparr>" "''c''" "''a''"
          "Answer (JStr ''sdp'')"]
        relay_broadcast_others [of "''b''" "\<lparr>sockets = [''a'', ''b'', ''c'']\<rparr>" "''c''" "''a''"
          "IceCandidate JNull"]
  by (simp add: broadcast_emit_def)

section \<open>The session invariant\<close>

lemma handle_inv: "session_inv s P \<Longrightarrow> session_inv (fst (handle verify env now req s)) P"
  by (auto simp: handle_def authenticateToken_def dispatch_def page_visit_def page_leave_def
      activity_def session_inv_def split: option.splits route.splits)

lemma step_inv: "session_inv (server st) P \<Longrightarrow> session_inv (server (step verify env st e)) P"
proof (cases e)
  case (Arrive rid req now)
  assume "session_inv (server st) P"
  then have "session_inv (fst (handle verify env now req (server st))) P"
    by (rule handle_inv)
  then show ?thesis using Arrive
    by (cases "handle verify env now req (server st)") (auto split: outcome.splits)
next
  case (DbDone rid err)
  assume "session_inv (server st) P"
  then show ?thesis using DbDone by (simp split: option.splits)
qed

lemma run_inv: "session_inv (server st) P \<Longrightarrow> session_inv (server (run verify env st es)) P"
  unfolding run_def by (induction es arbitrary: st) (simp_all add: step_inv)

text \<open>
  C8. In every state the server reaches from its start by requests (page-visit,
  page-leave, activity, authenticated or rejected) and query callbacks in any order,
  for every principal \<open>P\<close>: \<open>pageVisitLogged\<close> holds a truthy entry for \<open>P\<close> exactly when
  \<open>userVisitTimes\<close> holds a visit time for \<open>P\<close>, and there is at most one such visit time.
\<close>

theorem session_invariant:
  "session_inv (server (run verify env initial_loop es)) P
   \<and> card {e. userVisitTimes (server (run verify env initial_loop es)) P = Some e} \<le> 1"
proof -
  have "session_inv (server initial_loop) P"
    by (simp add: initial_loop_def initial_state_def session_inv_def)
  then have "session_inv (server (run verify env initial_loop es)) P" by (rule run_inv)
  moreover have "card {e. m P = Some e} \<le> 1" for m :: "nat \<rightharpoonup> visit_entry"
    by (cases "m P") simp_all
  ultimately show ?thesis by simp
qed

section \<open>Page visits in flight at the same time\<close>

lemma run_db_events_keeps:
  "server (run verify env st (db_events cbs)) = server st
   \<and> issued (run verify env st (db_events cbs)) = issued st
   \<and> set (sent st) \<subseteq> set (sent (run verify env st (db_events cbs)))"
proof (induction cbs arbitrary: st)
  case Nil
  then show ?case by (simp add: run_def db_events_def)
next
  case (Cons c cbs)
  let ?st1 = "step verify env st (DbDone (fst c) (snd c))"
  have eq: "run verify env st (db_events (c # cbs)) = run verify env ?st1 (db_events cbs)"
    by (simp add: run_def db_events_def)
  have keep: "server ?st1 = server st \<and> issued ?st1 = issued st \<and> set (sent st) \<subseteq> set (sent ?st1)"
    by (auto split: option.splits)
  show ?case
    unfolding eq using Cons.IH [of ?st1] keep by auto
qed

lemma handle_visit_closed:
  assumes "authenticateToken verify req = Next P" "route req = PageVisit"
    and "\<not> truthy (pageVisitLogged s P)"
  shows "handle verify env t req s =
     (s\<lparr>pageVisitLogged := (pageVisitLogged s)(P \<mapsto> True),
        userVisitTimes := (userVisitTimes s)(P \<mapsto> \<lparr>visitTime = t\<rparr>)\<rparr>,
      Issued (visit_query P t))"
  using assms by (simp add: handle_def dispatch_def page_visit_closed)

lemma handle_visit_open:
  assumes "authenticateToken verify req = Next P" "route req = PageVisit"
    and "truthy (pageVisitLogged s P)"
  shows "handle verify env t req s =
     (s, Sent \<lparr>status = 200, body = ''Page visit already recorded''\<rparr>)"
  using assms by (simp add: handle_def dispatch_def page_visit_open)

text \<open>
  C9. Two page-visit requests of the same principal \<open>P\<close> in flight at the same time, no
  session open before: whichever of the two has its handler run first (call it \<open>A\<close>),
  and however the callbacks of queries fall before, between and after the two handlers,
  exactly one \<open>Page Visit\<close> record is handed to the storage and exactly one session is
  open for \<open>P\<close> at the end; the other request finds the session open and is answered
  200 without a query.
\<close>

theorem concurrent_visits_one_session:
  assumes A: "authenticateToken verify reqA = Next P" "route reqA = PageVisit"
    and B: "authenticateToken verify reqB = Next P" "route reqB = PageVisit"
    and closed: "\<not> truthy (pageVisitLogged (server st) P)"
  shows "\<exists>st'. run verify env st
             (db_events cbs0 @ [Arrive ra reqA ta] @ db_events cbs1
              @ [Arrive rb reqB tb] @ db_events cbs2) = st'
         \<and> issued st' = issued st @ [visit_query P ta]
         \<and> userVisitTimes (server st') =
             (userVisitTimes (server st))(P \<mapsto> \<lparr>visitTime = ta\<rparr>)
         \<and> pageVisitLogged (server st') = (pageVisitLogged (server st))(P \<mapsto> True)
         \<and> (rb, \<lparr>status = 200, body = ''Page visit already recorded''\<rparr>) \<in> set (sent st')"
proof -
  define st1 where "st1 = run verify env st (db_events cbs0)"
  define st2 where "st2 = step verify env st1 (Arrive ra reqA ta)"
  define st3 where "st3 = run verify env st2 (db_events cbs1)"
  define st4 where "st4 = step verify env st3 (Arrive rb reqB tb)"
  define st5 where "st5 = run verify env st4 (db_events cbs2)"
  have run5: "run verify env st
             (db_events cbs0 @ [Arrive ra reqA ta] @ db_events cbs1
              @ [Arrive rb reqB tb] @ db_events cbs2) = st5"
    unfolding st5_def st4_def st3_def st2_def st1_def run_def
    by (simp only: foldl_append foldl_Cons foldl_Nil)
  have s1: "server st1 = server st" "issued st1 = issued st"
    using run_db_events_keeps [of verify env st cbs0] by (simp_all add: st1_def)
  have s2: "server st2 = (server st)\<lparr>pageVisitLogged := (pageVisitLogged (server st))(P \<mapsto> True),
        userVisitTimes := (userVisitTimes (server st))(P \<mapsto> \<lparr>visitTime = ta\<rparr>)\<rparr>"
      "issued st2 = issued st @ [visit_query P ta]"
    using handle_visit_closed [OF A, of "server st1" env ta] closed s1
    by (simp_all add: st2_def)
  have s3: "server st3 = server st2" "issued st3 = issued st2"
    using run_db_events_keeps [of verify env st2 cbs1] by (simp_all add: st3_def)
  have op: "truthy (pageVisitLogged (server st3) P)"
    by (simp add: s3 s2)
  have s4: "server st4 = server st3" "issued st4 = issued st3"
      "(rb, \<lparr>status = 200, body = ''Page visit already recorded''\<rparr>) \<in> set (sent st4)"
    using handle_visit_open [OF B op, of env tb] by (simp_all add: st4_def)
  have s5: "server st5 = server st4" "issued st5 = issued st4"
      "set (sent st4) \<subseteq> set (sent st5)"
    using run_db_events_keeps [of verify env st4 cbs2] by (simp_all add: st5_def)
  show ?thesis
    using run5 s2 s3 s4 s5 by auto
qed

theorem concurrent_visits_one_session_witness:
  "\<exists>st'. run (\<lambda>t. if t = ''k7'' then Some 7 else None) \<lparr>tz_offset = (\<lambda>t. 0), hourCycle = H23\<rparr>
            initial_loop
            (db_events [] @ [Arrive 1 \<lparr>authorization = Some ''Bearer k7'', route = PageVisit\<rparr> 1000]
             @ db_events [(1, None)]
             @ [Arrive 2 \<lparr>authorization = Some ''Bearer k7'', route = PageVisit\<rparr> 1001]
             @ db_events [(2, Some ''late'')]) = st'
         \<and> issued st' = issued initial_loop @ [visit_query 7 1000]
         \<and> userVisitTimes (server st') =
             (userVisitTimes (server initial_loop))(7 \<mapsto> \<lparr>visitTime = 1000\<rparr>)
         \<and> pageVisitLogged (server st') = (pageVisitLogged (server initial_loop))(7 \<mapsto> True)
         \<and> (2, \<lparr>status = 200, body = ''Page visit already recorded''\<rparr>) \<in> set (sent st')"
  using concurrent_visits_one_session
          [where verify = "\<lambda>t. if t = ''k7'' then Some 7 else None"
             and reqA = "\<lparr>authorization = Some ''Bearer k7'', route = PageVisit\<rparr>"
             and reqB = "\<lparr>authorization = Some ''Bearer k7'', route = PageVisit\<rparr>"
             and P = 7 and st = initial_loop
             and env = "\<lparr>tz_offset = (\<lambda>t. 0), hourCycle = H23\<rparr>"
             and ?cbs0.0 = "[]" and ra = 1 and ta = 1000 and ?cbs1.0 = "[(1, None)]"
             and rb = 2 and tb = 1001 and ?cbs2.0 = "[(2, Some ''late'')]"]
  by (simp add: authenticateToken_def token_of_def initial_loop_def initial_state_def)

end
